theory Spec2Isabelle
  imports Main "HOL-Library.Word"
begin

section \<open>JavaScript values used by the server\<close>

text \<open>
  A JavaScript string is a sequence of UTF-16 code units; \<open>length\<close> and \<open>charAt\<close>
  count code units. A Node \<open>Buffer\<close> is a sequence of bytes.
\<close>

type_synonym code_unit = "16 word"
type_synonym jsstring = "code_unit list"
type_synonym buffer = "8 word list"

text \<open>String literals of the source, written in ASCII.\<close>

definition js :: "string \<Rightarrow> jsstring" where
  "js cs = map (\<lambda>c. of_nat (of_char c)) cs"

text \<open>
  The class \<open>\s\<close> of a regular expression without the \<open>u\<close> flag: the white space and
  line terminator code units of ECMAScript.
\<close>

definition is_space :: "code_unit \<Rightarrow> bool" where
  "is_space c \<longleftrightarrow>
     (0x0009 \<le> c \<and> c \<le> 0x000D) \<or> c = 0x0020 \<or> c = 0x00A0 \<or> c = 0x1680 \<or>
     (0x2000 \<le> c \<and> c \<le> 0x200A) \<or> c = 0x2028 \<or> c = 0x2029 \<or> c = 0x202F \<or>
     c = 0x205F \<or> c = 0x3000 \<or> c = 0xFEFF"

text \<open>
  \<^verbatim>\<open>s.replace(/\s+/g, '')\<close>: every maximal run of white space is replaced by the empty
  string, so exactly the code units outside \<open>\s\<close> remain, in order.
\<close>

definition strip_whitespace :: "jsstring \<Rightarrow> jsstring" where
  "strip_whitespace s = filter (\<lambda>c. \<not> is_space c) s"

text \<open>
  A JavaScript number as the Luhn loop uses it: \<open>NaN\<close>, or an integer. The loop adds at
  most 9 per code unit, so on every string the engine can hold the sum stays far below
  \<open>2 ^ 53\<close> and the double arithmetic is exact.
\<close>

datatype js_number = NaN | Num int

definition is_digit :: "code_unit \<Rightarrow> bool" where
  "is_digit c \<longleftrightarrow> 0x0030 \<le> c \<and> c \<le> 0x0039"

definition digit_value :: "code_unit \<Rightarrow> int" where
  "digit_value c = uint c - 48"

text \<open>
  \<^verbatim>\<open>parseInt(ch, 10)\<close> of a string of one code unit: the value of an ASCII digit, and
  \<open>NaN\<close> for every other code unit (a sign alone, a letter, white space).
\<close>

definition parseInt :: "code_unit \<Rightarrow> js_number" where
  "parseInt c = (if is_digit c then Num (digit_value c) else NaN)"

section \<open>luhnCheck\<close>

text \<open>
  The body of the \<open>for\<close> loop on the state \<open>(sum, shouldDouble)\<close>:
  \<^verbatim>\<open>
    let digit = parseInt(strippedNumber.charAt(i), 10);
    if (shouldDouble) { digit *= 2; if (digit > 9) digit -= 9; }
    sum += digit;
    shouldDouble = !shouldDouble;
  \<close>
  Arithmetic with \<open>NaN\<close> gives \<open>NaN\<close> and \<open>NaN > 9\<close> is false.
\<close>

definition times2 :: "js_number \<Rightarrow> js_number" where
  "times2 x = (case x of NaN \<Rightarrow> NaN | Num n \<Rightarrow> Num (n * 2))"

definition gt9 :: "js_number \<Rightarrow> bool" where
  "gt9 x = (case x of NaN \<Rightarrow> False | Num n \<Rightarrow> n > 9)"

definition minus9 :: "js_number \<Rightarrow> js_number" where
  "minus9 x = (case x of NaN \<Rightarrow> NaN | Num n \<Rightarrow> Num (n - 9))"

definition add_number :: "js_number \<Rightarrow> js_number \<Rightarrow> js_number" where
  "add_number x y = (case x of NaN \<Rightarrow> NaN | Num m \<Rightarrow> (case y of NaN \<Rightarrow> NaN | Num n \<Rightarrow> Num (m + n)))"

definition luhn_body :: "code_unit \<Rightarrow> js_number \<times> bool \<Rightarrow> js_number \<times> bool" where
  "luhn_body ch st =
     (let sum = fst st; shouldDouble = snd st;
          digit = parseInt ch;
          digit = (if shouldDouble
                   then (let digit = times2 digit in if gt9 digit then minus9 digit else digit)
                   else digit)
      in (add_number sum digit, \<not> shouldDouble))"

text \<open>
  \<^verbatim>\<open>for (let i = strippedNumber.length - 1; i >= 0; i--)\<close>: the counter of the model
  is \<open>i + 1\<close>, so the loop starts at the length, reads \<open>charAt(i)\<close> and stops at 0.
\<close>

fun luhn_loop :: "jsstring \<Rightarrow> nat \<Rightarrow> js_number \<times> bool \<Rightarrow> js_number \<times> bool" where
  "luhn_loop s 0 st = st"
| "luhn_loop s (Suc i) st = luhn_loop s i (luhn_body (s ! i) st)"

text \<open>\<^verbatim>\<open>(sum % 10) === 0\<close>: false for \<open>NaN\<close>; the sum is never negative.\<close>

definition mod10_is_0 :: "js_number \<Rightarrow> bool" where
  "mod10_is_0 x = (case x of NaN \<Rightarrow> False | Num n \<Rightarrow> n mod 10 = 0)"

definition luhnCheck :: "jsstring \<Rightarrow> bool" where
  "luhnCheck cardNumber =
     (let strippedNumber = strip_whitespace cardNumber
      in mod10_is_0 (fst (luhn_loop strippedNumber (length strippedNumber) (Num 0, False))))"

subsection \<open>The checksum as the specification words it\<close>

text \<open>
  The digits of a string are its decimal digit characters. Starting from the rightmost
  digit (position 1) and moving left, the digits at positions 2, 4, 6, ... are doubled,
  a doubled digit above 9 loses 9, and everything is summed.
\<close>

definition digits_of :: "jsstring \<Rightarrow> int list" where
  "digits_of s = map digit_value (filter is_digit s)"

definition double_digit :: "int \<Rightarrow> int" where
  "double_digit d = (if 2 * d > 9 then 2 * d - 9 else 2 * d)"

fun weighted_from_right :: "nat \<Rightarrow> int list \<Rightarrow> int" where
  "weighted_from_right pos [] = 0"
| "weighted_from_right pos (d # ds) =
     (if even pos then double_digit d else d) + weighted_from_right (Suc pos) ds"

definition weighted_digit_sum :: "jsstring \<Rightarrow> int" where
  "weighted_digit_sum s = weighted_from_right 1 (rev (digits_of s))"

definition luhn_valid :: "jsstring \<Rightarrow> bool" where
  "luhn_valid input \<longleftrightarrow> weighted_digit_sum (strip_whitespace input) mod 10 = 0"

section \<open>Card number validation in the checkout handler\<close>

text \<open>
  The handler answers with a status and a body: a JSON object with the fields
  \<open>error\<close> and \<open>details\<close> (\<^verbatim>\<open>res.status(n).json({error, details})\<close>), or a text
  (\<^verbatim>\<open>res.status(n).send(text)\<close>).
\<close>

datatype body = Json jsstring jsstring | Text jsstring

record reply =
  status :: nat
  content :: body

text \<open>
  An exception of the JavaScript runtime. In the checkout handler it reaches the
  \<open>catch\<close> of the handler; in the webhook handler nothing catches it.
\<close>

datatype js_error = TypeError

text \<open>
  The result of \<^verbatim>\<open>valid.number(cardNumber)\<close> of the card-validator package, as far as
  the handler reads it: \<open>card\<close> is the \<open>type\<close> of the \<open>card\<close> object, \<open>None\<close> when
  \<open>card\<close> is \<open>null\<close>.
\<close>

record number_validation =
  card :: "jsstring option"
  isPotentiallyValid :: bool
  isValid :: bool

text \<open>
  Lines 76 to 109, on the result \<open>numberValidation\<close> of the package and the stripped
  \<open>cardNumber\<close>. \<open>Inr None\<close>: no check answered, the handler goes on.
  \<open>numberValidation.card.type\<close> throws a \<open>TypeError\<close> when \<open>card\<close> is \<open>null\<close>.
\<close>

definition card_checks :: "number_validation \<Rightarrow> jsstring \<Rightarrow> js_error + reply option" where
  "card_checks numberValidation cardNumber =
     (if \<not> isPotentiallyValid numberValidation then
        Inr (Some \<lparr>status = 400, content = Json (js ''Invalid card format'')
                     (js ''The card number format is not valid'')\<rparr>)
      else if \<not> isValid numberValidation then
        Inr (Some \<lparr>status = 400, content = Json (js ''Card validation failed'')
                     (js ''The provided card number failed validation checks'')\<rparr>)
      else
        (case card numberValidation of
           None \<Rightarrow> Inl TypeError
         | Some type \<Rightarrow>
             if (type = js ''visa'' \<or> type = js ''mastercard'' \<or> type = js ''discover'')
                \<and> length cardNumber \<noteq> 16 then
               Inr (Some \<lparr>status = 400, content = Json (js ''Invalid card length'')
                            (type @ js '' cards must be 16 digits'')\<rparr>)
             else if type = js ''american-express'' \<and> length cardNumber \<noteq> 15 then
               Inr (Some \<lparr>status = 400, content = Json (js ''Invalid card length'')
                            (js ''American Express cards must be 15 digits'')\<rparr>)
             else if \<not> luhnCheck cardNumber then
               Inr (Some \<lparr>status = 400, content = Json (js ''Invalid card number'')
                            (js ''The card number failed the Luhn algorithm check'')\<rparr>)
             else Inr None))"

text \<open>
  Lines 73 to 110 for a request whose \<open>card.number\<close> is the string \<open>number\<close>; the
  package's function is the parameter \<open>valid_number\<close>. The guard
  \<^verbatim>\<open>if (payload.card && payload.card.number)\<close> skips the checks for the empty string,
  which is falsy.
\<close>

definition validateCard ::
  "(jsstring \<Rightarrow> number_validation) \<Rightarrow> jsstring \<Rightarrow> js_error + reply option" where
  "validateCard valid_number number =
     (if number = [] then Inr None
      else (let cardNumber = strip_whitespace number;
                numberValidation = valid_number cardNumber
            in card_checks numberValidation cardNumber))"

text \<open>
  The error kinds of the specification, read off the \<open>error\<close> field of an answer. Both
  the package's verdict \<open>isValid = false\<close> and a failed \<open>luhnCheck\<close> report a number
  that failed the validity test.
\<close>

datatype error_kind =
  InvalidFormat | InvalidLength | ChecksumFailed
  | MissingSignature | InvalidSignature | MalformedPayload

definition card_error_kind :: "reply \<Rightarrow> error_kind option" where
  "card_error_kind r =
     (case content r of
        Text t \<Rightarrow> None
      | Json e d \<Rightarrow>
          if e = js ''Invalid card format'' then Some InvalidFormat
          else if e = js ''Card validation failed'' then Some ChecksumFailed
          else if e = js ''Invalid card length'' then Some InvalidLength
          else if e = js ''Invalid card number'' then Some ChecksumFailed
          else None)"

subsection \<open>The card-validator package\<close>

text \<open>
  Modelled from the spec: the function \<open>valid.number\<close> of the card-validator package,
  which is not part of the source tree. The format check is step 2 of the card validator
  (only digits, length 12 to 19) and the card type is the brand of step 3 (prefix
  patterns; \<open>unknown\<close> when none matches). The specification does not say when the
  package reports \<open>isValid\<close>, so that verdict stays a parameter \<open>verdict\<close>.
\<close>

definition format_ok :: "jsstring \<Rightarrow> bool" where
  "format_ok s \<longleftrightarrow> list_all is_digit s \<and> 12 \<le> length s \<and> length s \<le> 19"

definition decimal :: "jsstring \<Rightarrow> nat" where
  "decimal s = foldl (\<lambda>n c. 10 * n + nat (digit_value c)) 0 s"

definition prefix_between :: "nat \<Rightarrow> nat \<Rightarrow> nat \<Rightarrow> jsstring \<Rightarrow> bool" where
  "prefix_between k lo hi s \<longleftrightarrow>
     k \<le> length s \<and> list_all is_digit (take k s)
     \<and> lo \<le> decimal (take k s) \<and> decimal (take k s) \<le> hi"

definition brand :: "jsstring \<Rightarrow> jsstring" where
  "brand s =
     (if prefix_between 1 4 4 s then js ''visa''
      else if prefix_between 2 51 55 s \<or> prefix_between 4 2221 2720 s then js ''mastercard''
      else if prefix_between 2 34 34 s \<or> prefix_between 2 37 37 s then js ''american-express''
      else if prefix_between 4 6011 6011 s \<or> prefix_between 2 65 65 s
              \<or> prefix_between 3 644 649 s then js ''discover''
      else js ''unknown'')"

definition number_spec :: "(jsstring \<Rightarrow> bool) \<Rightarrow> jsstring \<Rightarrow> number_validation" where
  "number_spec verdict s =
     \<lparr>card = Some (brand s), isPotentiallyValid = format_ok s, isValid = verdict s\<rparr>"

section \<open>The webhook route\<close>

text \<open>
  The value of \<open>req.body\<close> when the handler runs: a \<open>Buffer\<close> (what \<open>bodyParser.raw\<close>
  stores), a parsed JSON value (what \<open>bodyParser.json\<close> stores, an object or an array),
  or what body-parser leaves when it has read nothing (\<open>{}\<close> or \<open>undefined\<close>, by
  version of the package).
\<close>

datatype 'j parsed_body = Buffer buffer | Parsed 'j | Not_read

text \<open>
  What the route does besides answering, in order: console output, an HMAC digest
  computed (key and data), the JSON parse of the payload by \<open>bodyParser.json\<close>, and the
  \<open>JSON.parse\<close> of line 244 (on \<open>req.body\<close>).
\<close>

datatype 'j effect =
  Console_error jsstring
  | Create_hmac jsstring buffer
  | Body_parser_parse buffer
  | JSON_parse "'j parsed_body"
  | Console_log jsstring

text \<open>\<^verbatim>\<open>digest('hex')\<close>: two lowercase hexadecimal digits for each byte.\<close>

definition hex_digit :: "nat \<Rightarrow> code_unit" where
  "hex_digit n = js ''0123456789abcdef'' ! n"

definition hex :: "buffer \<Rightarrow> jsstring" where
  "hex bs = concat (map (\<lambda>b. [hex_digit (unat b div 16), hex_digit (unat b mod 16)]) bs)"

text \<open>
  Lines 220 to 239. The header value \<open>signature\<close> and the environment variable
  \<open>webhookSecret\<close> are strings or \<open>undefined\<close> (\<open>None\<close>); \<open>body\<close> is \<open>req.body\<close>.
  \<open>hmac_sha256 key data\<close> stands for the digest bytes of
  \<^verbatim>\<open>crypto.createHmac('sha256', key).update(data)\<close>.
  \<open>!signature\<close> holds for \<open>undefined\<close> and for the empty string. \<open>createHmac\<close> throws
  a \<open>TypeError\<close> for an \<open>undefined\<close> key, and \<open>update\<close> throws a \<open>TypeError\<close> for data
  that is neither a string nor a \<open>Buffer\<close> (a parsed object, \<open>{}\<close>, \<open>undefined\<close>). The
  result is the exception, the answer of a failed check (\<open>Inr (Some r)\<close>) or \<open>Inr None\<close>
  when the signature is verified, with the effects so far.
\<close>

definition verifySignature ::
  "(jsstring \<Rightarrow> buffer \<Rightarrow> buffer) \<Rightarrow> jsstring option \<Rightarrow> jsstring option \<Rightarrow> 'j parsed_body
     \<Rightarrow> (js_error + reply option) \<times> 'j effect list" where
  "verifySignature hmac_sha256 signature webhookSecret body =
     (if signature = None \<or> signature = Some [] then
        (Inr (Some \<lparr>status = 400, content = Text (js ''Missing signature header'')\<rparr>),
         [Console_error (js ''Missing Peach-Signature header'')])
      else
        (case webhookSecret of
           None \<Rightarrow> (Inl TypeError, [])
         | Some key \<Rightarrow>
             (case body of
                Parsed v \<Rightarrow> (Inl TypeError, [])
              | Not_read \<Rightarrow> (Inl TypeError, [])
              | Buffer data \<Rightarrow>
                  (let computedSignature = hex (hmac_sha256 key data)
                   in if Some computedSignature \<noteq> signature then
                        (Inr (Some \<lparr>status = 401,
                                     content = Text (js ''Invalid signature'')\<rparr>),
                         [Create_hmac key data,
                          Console_error (js ''Invalid webhook signature'')])
                      else (Inr None, [Create_hmac key data])))))"

text \<open>
  The handler, lines 219 to 260, on the \<open>req.body\<close> it is given. \<open>parse body\<close> stands
  for \<^verbatim>\<open>JSON.parse(req.body.toString())\<close>, \<open>None\<close> when it throws; the \<open>catch\<close> of
  line 245 answers then. \<open>stringify\<close> stands for \<open>JSON.stringify\<close> of the parsed event.
\<close>

definition webhook ::
  "(jsstring \<Rightarrow> buffer \<Rightarrow> buffer) \<Rightarrow> ('j parsed_body \<Rightarrow> 'j option) \<Rightarrow> ('j \<Rightarrow> jsstring)
     \<Rightarrow> jsstring option \<Rightarrow> jsstring option \<Rightarrow> 'j parsed_body
     \<Rightarrow> (js_error + reply) \<times> 'j effect list" where
  "webhook hmac_sha256 parse stringify signature webhookSecret body =
     (case verifySignature hmac_sha256 signature webhookSecret body of
        (Inl e, effects) \<Rightarrow> (Inl e, effects)
      | (Inr (Some r), effects) \<Rightarrow> (Inr r, effects)
      | (Inr None, effects) \<Rightarrow>
          (case parse body of
             None \<Rightarrow>
               (Inr \<lparr>status = 400, content = Text (js ''Invalid JSON'')\<rparr>,
                effects @ [JSON_parse body, Console_error (js ''Error parsing webhook JSON:'')])
           | Some eventData \<Rightarrow>
               (Inr \<lparr>status = 200, content = Text (js ''Webhook received'')\<rparr>,
                effects @ [JSON_parse body,
                           Console_log (js ''Received webhook event: '' @ stringify eventData)])))"

definition webhook_error_kind :: "reply \<Rightarrow> error_kind option" where
  "webhook_error_kind r =
     (case content r of
        Json e d \<Rightarrow> None
      | Text t \<Rightarrow>
          if t = js ''Missing signature header'' then Some MissingSignature
          else if t = js ''Invalid signature'' then Some InvalidSignature
          else if t = js ''Invalid JSON'' then Some MalformedPayload
          else None)"

subsection \<open>The body parsers in front of the handler\<close>

text \<open>
  A request to \<open>/api/webhook\<close>: whether its \<open>Content-Type\<close> is \<open>application/json\<close> (with
  a body present), the bytes of its body, and its \<open>Peach-Signature\<close> header.
\<close>

record request =
  json_content :: bool
  payload :: buffer
  peach_signature :: "jsstring option"

text \<open>\<open>req.body\<close> and the mark \<open>req._body\<close> that a body parser sets once it has read the body.\<close>

record 'j req =
  req_body :: "'j parsed_body"
  req_read :: bool

text \<open>
  The body-parser package is not part of the source tree; its two middlewares are
  rendered by the behaviour the package documents. Each one passes on a request whose
  body was read already or whose content type it does not handle; otherwise it reads the
  body, stores the result in \<open>req.body\<close> and marks the request as read.

  \<^verbatim>\<open>app.use(bodyParser.json())\<close> of line 22 is registered for every route, the webhook
  route included, and handles \<open>application/json\<close>. \<open>strict_parse\<close> stands for its parse
  of the payload (objects and arrays only), \<open>None\<close> when the payload is rejected; then the
  parser hands an error to the framework, which answers with status 400, and the handler
  is not called (result \<open>None\<close>).
\<close>

definition bodyParser_json ::
  "(buffer \<Rightarrow> 'j option) \<Rightarrow> request \<Rightarrow> 'j req \<Rightarrow> 'j req option \<times> 'j effect list" where
  "bodyParser_json strict_parse rq r =
     (if req_read r then (Some r, [])
      else if \<not> json_content rq then (Some r, [])
      else
        (case strict_parse (payload rq) of
           None \<Rightarrow> (None, [Body_parser_parse (payload rq)])
         | Some v \<Rightarrow>
             (Some (r\<lparr>req_body := Parsed v, req_read := True\<rparr>),
              [Body_parser_parse (payload rq)])))"

text \<open>
  \<^verbatim>\<open>bodyParser.raw({ type: 'application/json' })\<close> of line 219, the route's own
  middleware, handles the same content type and runs after the global one.
\<close>

definition bodyParser_raw :: "request \<Rightarrow> 'j req \<Rightarrow> 'j req" where
  "bodyParser_raw rq r =
     (if req_read r then r
      else if \<not> json_content rq then r
      else r\<lparr>req_body := Buffer (payload rq), req_read := True\<rparr>)"

text \<open>
  A request through the route: \<open>bodyParser.json\<close> (line 22), \<open>bodyParser.raw\<close>
  (line 219), then the handler. Nothing in the handler catches an exception of
  \<open>verifySignature\<close>.
\<close>

datatype outcome = Bad_request | Threw js_error | Replied reply

definition webhook_route ::
  "(jsstring \<Rightarrow> buffer \<Rightarrow> buffer) \<Rightarrow> (buffer \<Rightarrow> 'j option) \<Rightarrow> ('j parsed_body \<Rightarrow> 'j option)
     \<Rightarrow> ('j \<Rightarrow> jsstring) \<Rightarrow> jsstring option \<Rightarrow> request \<Rightarrow> outcome \<times> 'j effect list" where
  "webhook_route hmac_sha256 strict_parse parse stringify webhookSecret rq =
     (case bodyParser_json strict_parse rq \<lparr>req_body = Not_read, req_read = False\<rparr> of
        (None, effects) \<Rightarrow> (Bad_request, effects)
      | (Some r, effects) \<Rightarrow>
          (case webhook hmac_sha256 parse stringify (peach_signature rq) webhookSecret
                  (req_body (bodyParser_raw rq r)) of
             (Inl e, effects') \<Rightarrow> (Threw e, effects @ effects')
           | (Inr answer, effects') \<Rightarrow> (Replied answer, effects @ effects')))"

section \<open>Properties of luhnCheck\<close>

lemma of_char_less_65536: "(of_char c :: nat) < 65536"
proof -
  have "(of_char c :: nat) mod 256 = of_char c" by simp
  then have "(of_char c :: nat) < 256"
    by (metis mod_less_divisor zero_less_numeral)
  then show ?thesis by linarith
qed

lemma js_eq_iff [simp]: "js a = js b \<longleftrightarrow> a = b"
proof -
  have "inj (\<lambda>c::char. (of_nat (of_char c) :: code_unit))"
  proof (rule injI)
    fix x y :: char
    assume "(of_nat (of_char x) :: code_unit) = of_nat (of_char y)"
    then have "unat (of_nat (of_char x) :: code_unit) = unat (of_nat (of_char y) :: code_unit)"
      by simp
    then have "(of_char x :: nat) = of_char y"
      using of_char_less_65536 [of x] of_char_less_65536 [of y] by (simp add: unat_of_nat)
    then show "x = y" by simp
  qed
  then show ?thesis
    by (simp add: js_def inj_map_eq_map)
qed

lemma js_Nil_iff [simp]: "js cs = [] \<longleftrightarrow> cs = []"
  by (simp add: js_def)

lemma strip_whitespace_idem [simp]:
  "strip_whitespace (strip_whitespace s) = strip_whitespace s"
  by (simp add: strip_whitespace_def)

text \<open>The loop visits the code units from the last to the first.\<close>

lemma luhn_loop_fold:
  "n \<le> length s \<Longrightarrow> luhn_loop s n st = fold luhn_body (rev (take n s)) st"
proof (induction n arbitrary: st)
  case 0
  show ?case by simp
next
  case (Suc n)
  then have "n < length s" by simp
  then have "take (Suc n) s = take n s @ [s ! n]"
    by (simp add: take_Suc_conv_app_nth)
  with Suc show ?case by simp
qed

lemma luhn_body_digit:
  "is_digit c \<Longrightarrow>
   luhn_body c (Num a, even pos) =
     (Num (a + (if even pos then double_digit (digit_value c) else digit_value c)),
      even (Suc pos))"
  by (simp add: luhn_body_def parseInt_def times2_def gt9_def minus9_def add_number_def
      double_digit_def)

lemma fold_luhn_body_digits:
  "list_all is_digit xs \<Longrightarrow>
   fold luhn_body xs (Num a, even pos) =
     (Num (a + weighted_from_right pos (map digit_value xs)), even (pos + length xs))"
proof (induction xs arbitrary: a pos)
  case Nil
  show ?case by simp
next
  case (Cons c cs)
  then have c: "is_digit c" and cs: "list_all is_digit cs" by simp_all
  show ?case
    using Cons.IH [OF cs, of _ "Suc pos"] luhn_body_digit [OF c, of a pos]
    by (simp del: even_Suc)
qed

text \<open>Once the sum is \<open>NaN\<close> it stays \<open>NaN\<close>, and a code unit that is no digit makes it so.\<close>

lemma luhn_body_NaN: "fst (luhn_body c (NaN, b)) = NaN"
  by (simp add: luhn_body_def add_number_def Let_def)

lemma fold_luhn_body_NaN: "fst (fold luhn_body xs (NaN, b)) = NaN"
proof (induction xs arbitrary: b)
  case Nil
  show ?case by simp
next
  case (Cons c cs)
  obtain b' where "luhn_body c (NaN, b) = (NaN, b')"
    using luhn_body_NaN [of c b] by (cases "luhn_body c (NaN, b)") simp
  with Cons show ?case by simp
qed

lemma luhn_body_not_digit: "\<not> is_digit c \<Longrightarrow> fst (luhn_body c (x, b)) = NaN"
  by (cases x) (simp_all add: luhn_body_def parseInt_def times2_def gt9_def add_number_def Let_def)

lemma fold_luhn_body_not_digits:
  "\<not> list_all is_digit xs \<Longrightarrow> fst (fold luhn_body xs (x, b)) = NaN"
proof (induction xs arbitrary: x b)
  case Nil
  then show ?case by simp
next
  case (Cons c cs)
  show ?case
  proof (cases "is_digit c")
    case True
    with Cons.prems have "\<not> list_all is_digit cs" by simp
    from Cons.IH [OF this] show ?thesis
      by (cases "luhn_body c (x, b)") simp
  next
    case False
    then obtain b' where "luhn_body c (x, b) = (NaN, b')"
      using luhn_body_not_digit [of c x b] by (cases "luhn_body c (x, b)") simp
    then show ?thesis by (simp add: fold_luhn_body_NaN)
  qed
qed

lemma digits_of_all_digits: "list_all is_digit s \<Longrightarrow> digits_of s = map digit_value s"
  by (simp add: digits_of_def list_all_iff)

lemma luhn_sum_digits:
  assumes "list_all is_digit s"
  shows "fst (luhn_loop s (length s) (Num 0, False)) = Num (weighted_digit_sum s)"
proof -
  have r: "list_all is_digit (rev s)" using assms by (simp add: list_all_iff)
  have "luhn_loop s (length s) (Num 0, False) = fold luhn_body (rev s) (Num 0, even (1::nat))"
    by (simp add: luhn_loop_fold)
  also have "\<dots> = (Num (0 + weighted_from_right 1 (map digit_value (rev s))),
                    even (1 + length (rev s)))"
    by (rule fold_luhn_body_digits [OF r])
  finally show ?thesis
    using assms by (simp add: weighted_digit_sum_def digits_of_all_digits rev_map)
qed

lemma luhn_sum_not_digits:
  assumes "\<not> list_all is_digit s"
  shows "fst (luhn_loop s (length s) (Num 0, False)) = NaN"
proof -
  have "\<not> list_all is_digit (rev s)" using assms by (simp add: list_all_iff)
  then show ?thesis by (simp add: luhn_loop_fold fold_luhn_body_not_digits)
qed

lemma luhnCheck_char:
  "luhnCheck input \<longleftrightarrow> list_all is_digit (strip_whitespace input) \<and> luhn_valid input"
proof (cases "list_all is_digit (strip_whitespace input)")
  case True
  then show ?thesis
    by (simp add: luhnCheck_def luhn_valid_def luhn_sum_digits mod10_is_0_def)
next
  case False
  then show ?thesis
    by (simp add: luhnCheck_def luhn_sum_not_digits mod10_is_0_def)
qed

lemmas eval_defs =
  js_def strip_whitespace_def is_space_def is_digit_def digit_value_def parseInt_def
  luhn_body_def times2_def gt9_def minus9_def add_number_def mod10_is_0_def luhnCheck_def
  digits_of_def double_digit_def weighted_digit_sum_def luhn_valid_def

text \<open>
  C1, as amended. For every string, \<open>luhnCheck\<close> returns true if and only if, after
  stripping white space, every remaining character is a decimal digit and the weighted
  digit sum (every second digit from the rightmost one leftward doubled, 9 subtracted
  from a doubled digit above 9, all digits summed) is divisible by 10.
\<close>

theorem luhnCheck_iff_digits_and_sum:
  "luhnCheck input \<longleftrightarrow>
     list_all is_digit (strip_whitespace input)
     \<and> weighted_digit_sum (strip_whitespace input) mod 10 = 0"
  using luhnCheck_char [of input] by (simp add: luhn_valid_def)

text \<open>
  C1 as stated fails on a card number written with hyphens: its digits are all 0, so
  the weighted digit sum is 0 and divisible by 10, but \<open>parseInt\<close> of a hyphen is
  \<open>NaN\<close> and \<open>luhnCheck\<close> returns false.
\<close>

theorem luhnCheck_hyphens_counterexample:
  "weighted_digit_sum (strip_whitespace (js ''0000-0000-0000-0000'')) mod 10 = 0
   \<and> \<not> luhnCheck (js ''0000-0000-0000-0000'')"
  by (simp add: eval_defs)

text \<open>
  C10, as amended. For every input string containing no digit characters, \<open>luhnCheck\<close>
  returns true exactly when the string consists of white space only (the empty string
  included): then the stripped string is empty and the sum is 0. Any other character
  makes the sum \<open>NaN\<close> and the result false.
\<close>

theorem luhnCheck_no_digits:
  "\<not> list_ex is_digit input \<Longrightarrow> luhnCheck input \<longleftrightarrow> list_all is_space input"
proof -
  assume nd: "\<not> list_ex is_digit input"
  show ?thesis
  proof (cases "list_all is_space input")
    case True
    then have "strip_whitespace input = []"
      by (simp add: strip_whitespace_def list_all_iff)
    with True show ?thesis
      by (simp add: luhnCheck_def mod10_is_0_def)
  next
    case False
    then obtain c where c: "c \<in> set input" "\<not> is_space c"
      by (auto simp: list_all_iff)
    with nd have "\<not> is_digit c" by (auto simp: list_ex_iff)
    with c have "\<not> list_all is_digit (strip_whitespace input)"
      by (auto simp: strip_whitespace_def list_all_iff)
    with False show ?thesis by (simp add: luhnCheck_char)
  qed
qed

theorem luhnCheck_no_digits_witness:
  "\<not> list_ex is_digit [0x20, 0x09] \<and> luhnCheck [0x20, 0x09] \<and> luhnCheck []"
  using luhnCheck_no_digits [of "[0x20, 0x09]"] luhnCheck_no_digits [of "[]"]
  by (simp add: is_digit_def is_space_def)

text \<open>
  C10 as stated fails on a string of letters: it contains no digit, and
  \<open>luhnCheck\<close> returns false.
\<close>

theorem luhnCheck_letters_counterexample:
  "\<not> list_ex is_digit (js ''abc'') \<and> \<not> luhnCheck (js ''abc'')"
  by (simp add: eval_defs)

section \<open>Properties of the card number validation\<close>

lemma weighted_digit_sum_Nil [simp]: "weighted_digit_sum [] = 0"
  by (simp add: weighted_digit_sum_def digits_of_def)

text \<open>
  C6, as amended. For every non-empty input string, the validation answers
  \<open>InvalidFormat\<close> exactly when the package reports the white-space-stripped string as
  not potentially valid; with the format check of the specification that is exactly when
  the stripped string contains a non-digit character or has a length outside 12 to 19.
  In particular the input 123 fails with \<open>InvalidFormat\<close>. (An empty card number counts
  as absent and is not validated.)
\<close>

theorem invalid_format_iff:
  "number \<noteq> [] \<Longrightarrow>
   ((\<exists>r. validateCard valid_number number = Inr (Some r)
         \<and> card_error_kind r = Some InvalidFormat)
      \<longleftrightarrow> \<not> isPotentiallyValid (valid_number (strip_whitespace number)))
   \<and> ((\<exists>r. validateCard (number_spec verdict) number = Inr (Some r)
           \<and> card_error_kind r = Some InvalidFormat)
        \<longleftrightarrow> (\<exists>c \<in> set (strip_whitespace number). \<not> is_digit c)
            \<or> length (strip_whitespace number) < 12
            \<or> 19 < length (strip_whitespace number))
   \<and> validateCard (number_spec verdict) (js ''123'') =
        Inr (Some \<lparr>status = 400, content = Json (js ''Invalid card format'')
                     (js ''The card number format is not valid'')\<rparr>)"
proof -
  assume ne: "number \<noteq> []"
  have a: "(\<exists>r. validateCard f number = Inr (Some r) \<and> card_error_kind r = Some InvalidFormat)
      \<longleftrightarrow> \<not> isPotentiallyValid (f (strip_whitespace number))" for f
    using ne
    by (auto simp: card_checks_def validateCard_def card_error_kind_def Let_def
        split: option.splits)
  have b: "\<not> format_ok s \<longleftrightarrow> (\<exists>c \<in> set s. \<not> is_digit c) \<or> length s < 12 \<or> 19 < length s"
    for s
    by (auto simp: format_ok_def list_all_iff)
  have c: "validateCard (number_spec verdict) (js ''123'') =
        Inr (Some \<lparr>status = 400, content = Json (js ''Invalid card format'')
                     (js ''The card number format is not valid'')\<rparr>)"
    by (simp add: card_checks_def validateCard_def number_spec_def format_ok_def
        strip_whitespace_def js_def)
  show ?thesis
    using a [of valid_number] a [of "number_spec verdict"] b [of "strip_whitespace number"] c
    by (simp add: number_spec_def)
qed

theorem invalid_format_iff_witness:
  "\<exists>r. validateCard (number_spec (\<lambda>s. True)) (js ''12 34'') = Inr (Some r)
        \<and> card_error_kind r = Some InvalidFormat"
  using invalid_format_iff [of "js ''12 34''" "number_spec (\<lambda>s. True)" "\<lambda>s. True"]
  by (simp add: js_def strip_whitespace_def is_space_def number_spec_def format_ok_def)

text \<open>
  C6 as stated fails on the empty string: its stripped form has length 0, outside 12
  to 19, but the guard of line 73 takes it for a missing card number and no check
  answers.
\<close>

theorem empty_number_counterexample:
  "length (strip_whitespace []) < 12 \<and> validateCard (number_spec (\<lambda>s. True)) [] = Inr None"
  by (simp add: validateCard_def strip_whitespace_def)

text \<open>
  C7, as amended. For every non-empty input whose stripped form passes the format
  check: if the package reports it not valid, the validation fails with
  \<open>Card validation failed\<close> whatever its length; if the package reports it valid and
  its type is visa, mastercard or discover with a length other than 16, or
  american-express with a length other than 15, the validation fails with
  \<open>InvalidLength\<close>, naming the type and the expected length; a type outside these four
  is never answered with \<open>InvalidLength\<close>. In particular the 14-digit input
  34343434343434 fails with \<open>InvalidLength\<close> when the package reports it valid.
\<close>

theorem length_by_brand_when_valid:
  "number \<noteq> [] \<Longrightarrow> isPotentiallyValid (valid_number (strip_whitespace number)) \<Longrightarrow>
   card (valid_number (strip_whitespace number)) = Some type \<Longrightarrow>
   (\<not> isValid (valid_number (strip_whitespace number)) \<longrightarrow>
      validateCard valid_number number =
        Inr (Some \<lparr>status = 400, content = Json (js ''Card validation failed'')
                     (js ''The provided card number failed validation checks'')\<rparr>))
   \<and> (isValid (valid_number (strip_whitespace number))
        \<and> (type = js ''visa'' \<or> type = js ''mastercard'' \<or> type = js ''discover'')
        \<and> length (strip_whitespace number) \<noteq> 16 \<longrightarrow>
        validateCard valid_number number =
          Inr (Some \<lparr>status = 400, content = Json (js ''Invalid card length'')
                       (type @ js '' cards must be 16 digits'')\<rparr>))
   \<and> (isValid (valid_number (strip_whitespace number))
        \<and> type = js ''american-express'' \<and> length (strip_whitespace number) \<noteq> 15 \<longrightarrow>
        validateCard valid_number number =
          Inr (Some \<lparr>status = 400, content = Json (js ''Invalid card length'')
                       (js ''American Express cards must be 15 digits'')\<rparr>))
   \<and> (type \<noteq> js ''visa'' \<and> type \<noteq> js ''mastercard'' \<and> type \<noteq> js ''discover''
        \<and> type \<noteq> js ''american-express'' \<longrightarrow>
        (\<forall>r. validateCard valid_number number = Inr (Some r)
           \<longrightarrow> card_error_kind r \<noteq> Some InvalidLength))
   \<and> card_error_kind \<lparr>status = 400, content = Json (js ''Invalid card length'') d\<rparr>
       = Some InvalidLength
   \<and> (verdict (js ''34343434343434'') \<longrightarrow>
        validateCard (number_spec verdict) (js ''34343434343434'') =
          Inr (Some \<lparr>status = 400, content = Json (js ''Invalid card length'')
                       (js ''American Express cards must be 15 digits'')\<rparr>))"
proof -
  assume ne: "number \<noteq> []"
    and pv: "isPotentiallyValid (valid_number (strip_whitespace number))"
    and ty: "card (valid_number (strip_whitespace number)) = Some type"
  have amex: "verdict (js ''34343434343434'') \<longrightarrow>
        validateCard (number_spec verdict) (js ''34343434343434'') =
          Inr (Some \<lparr>status = 400, content = Json (js ''Invalid card length'')
                       (js ''American Express cards must be 15 digits'')\<rparr>)"
  proof
    assume v: "verdict (js ''34343434343434'')"
    have s: "strip_whitespace (js ''34343434343434'') = js ''34343434343434''"
      by (simp add: strip_whitespace_def js_def is_space_def)
    have f: "format_ok (js ''34343434343434'')"
      by (simp add: format_ok_def js_def is_digit_def)
    have b: "brand (js ''34343434343434'') = js ''american-express''"
      by (simp add: brand_def prefix_between_def decimal_def js_def is_digit_def
          digit_value_def)
    have l: "length (js ''34343434343434'') = 14" by (simp add: js_def)
    show "validateCard (number_spec verdict) (js ''34343434343434'') =
          Inr (Some \<lparr>status = 400, content = Json (js ''Invalid card length'')
                       (js ''American Express cards must be 15 digits'')\<rparr>)"
      using v by (simp add: validateCard_def card_checks_def number_spec_def s f b l)
  qed
  have kind: "card_error_kind \<lparr>status = 400, content = Json (js ''Invalid card length'') d\<rparr>
       = Some InvalidLength"
    by (simp add: card_error_kind_def)
  show ?thesis
    using ne pv ty amex kind
    by (auto simp: validateCard_def card_checks_def card_error_kind_def Let_def)
qed

theorem length_by_brand_when_valid_witness:
  "validateCard (number_spec (\<lambda>s. True)) (js ''4242 4242 4242'') =
     Inr (Some \<lparr>status = 400, content = Json (js ''Invalid card length'')
                  (js ''visa cards must be 16 digits'')\<rparr>)"
proof -
  have s: "strip_whitespace (js ''4242 4242 4242'') = js ''424242424242''"
    by (simp add: strip_whitespace_def js_def is_space_def)
  have f: "format_ok (js ''424242424242'')"
    by (simp add: format_ok_def js_def is_digit_def)
  have b: "brand (js ''424242424242'') = js ''visa''"
    by (simp add: brand_def prefix_between_def decimal_def js_def is_digit_def digit_value_def)
  have l: "length (js ''424242424242'') = 12" by (simp add: js_def)
  have n: "js ''4242 4242 4242'' \<noteq> []" by simp
  have a: "js ''visa'' @ js '' cards must be 16 digits'' = js ''visa cards must be 16 digits''"
    by (simp add: js_def)
  show ?thesis
    using length_by_brand_when_valid [of "js ''4242 4242 4242''" "number_spec (\<lambda>s. True)"
        "js ''visa''" "[]" "\<lambda>s. True"] n
    by (simp add: number_spec_def s f b l a)
qed

text \<open>
  C7 as stated fails on a 15-digit number with the visa prefix that the package reports
  as potentially valid but not valid: the validity test of line 82 comes before the
  length rule, so the answer is \<open>Card validation failed\<close>, not \<open>Invalid card length\<close>.
  The same happens with the modelled package when its verdict is the Luhn test.
\<close>

theorem length_rule_counterexample:
  "length (js ''400000000000000'') = 15
   \<and> card_checks \<lparr>card = Some (js ''visa''), isPotentiallyValid = True, isValid = False\<rparr>
        (js ''400000000000000'') =
       Inr (Some \<lparr>status = 400, content = Json (js ''Card validation failed'')
                    (js ''The provided card number failed validation checks'')\<rparr>)
   \<and> validateCard (number_spec luhnCheck) (js ''400000000000000'') =
       Inr (Some \<lparr>status = 400, content = Json (js ''Card validation failed'')
                    (js ''The provided card number failed validation checks'')\<rparr>)
   \<and> brand (js ''400000000000000'') = js ''visa''
   \<and> format_ok (js ''400000000000000'')"
proof -
  have s: "strip_whitespace (js ''400000000000000'') = js ''400000000000000''"
    by (simp add: strip_whitespace_def js_def is_space_def)
  have f: "format_ok (js ''400000000000000'')"
    by (simp add: format_ok_def js_def is_digit_def)
  have b: "brand (js ''400000000000000'') = js ''visa''"
    by (simp add: brand_def prefix_between_def decimal_def js_def is_digit_def digit_value_def)
  have l: "length (js ''400000000000000'') = 15" by (simp add: js_def)
  have c: "\<not> luhnCheck (js ''400000000000000'')"
    by (simp add: eval_defs)
  show ?thesis
    by (simp add: validateCard_def card_checks_def number_spec_def s f b l c)
qed

text \<open>
  C8. For every input whose stripped form is a digit string that passes the format check
  and the length-by-brand check, but whose weighted digit sum is not divisible by 10,
  the validation fails with status 400 and the error kind \<open>ChecksumFailed\<close>, whatever
  the package's verdict \<open>isValid\<close> is. In particular the input 4242424242424241 fails
  with \<open>ChecksumFailed\<close>.
\<close>

theorem checksum_failed:
  "(list_all is_digit (strip_whitespace number)
    \<and> isPotentiallyValid (valid_number (strip_whitespace number))
    \<and> card (valid_number (strip_whitespace number)) = Some type
    \<and> ((type = js ''visa'' \<or> type = js ''mastercard'' \<or> type = js ''discover'')
         \<longrightarrow> length (strip_whitespace number) = 16)
    \<and> (type = js ''american-express'' \<longrightarrow> length (strip_whitespace number) = 15)
    \<and> weighted_digit_sum (strip_whitespace number) mod 10 \<noteq> 0
    \<longrightarrow> (\<exists>r. validateCard valid_number number = Inr (Some r)
           \<and> status r = 400 \<and> card_error_kind r = Some ChecksumFailed))
   \<and> (\<exists>r. validateCard (number_spec verdict) (js ''4242424242424241'') = Inr (Some r)
           \<and> status r = 400 \<and> card_error_kind r = Some ChecksumFailed)"
proof -
  have general: "\<exists>r. validateCard valid_number number = Inr (Some r)
           \<and> status r = 400 \<and> card_error_kind r = Some ChecksumFailed"
    if d: "list_all is_digit (strip_whitespace number)"
      and pv: "isPotentiallyValid (valid_number (strip_whitespace number))"
      and ty: "card (valid_number (strip_whitespace number)) = Some type"
      and l16: "(type = js ''visa'' \<or> type = js ''mastercard'' \<or> type = js ''discover'')
         \<longrightarrow> length (strip_whitespace number) = 16"
      and l15: "type = js ''american-express'' \<longrightarrow> length (strip_whitespace number) = 15"
      and sum: "weighted_digit_sum (strip_whitespace number) mod 10 \<noteq> 0"
    for valid_number number type
  proof -
    from sum have "strip_whitespace number \<noteq> []" by auto
    then have ne: "number \<noteq> []" by (auto simp: strip_whitespace_def)
    from sum have "\<not> luhnCheck (strip_whitespace number)"
      by (simp add: luhnCheck_char luhn_valid_def)
    with ne pv ty l16 l15 show ?thesis
      by (auto simp: validateCard_def card_checks_def card_error_kind_def Let_def)
  qed
  have s: "strip_whitespace (js ''4242424242424241'') = js ''4242424242424241''"
    by (simp add: strip_whitespace_def js_def is_space_def)
  have d: "list_all is_digit (js ''4242424242424241'')"
    by (simp add: js_def is_digit_def)
  have f: "format_ok (js ''4242424242424241'')"
    by (simp add: format_ok_def js_def is_digit_def)
  have b: "brand (js ''4242424242424241'') = js ''visa''"
    by (simp add: brand_def prefix_between_def decimal_def js_def is_digit_def digit_value_def)
  have l: "length (js ''4242424242424241'') = 16" by (simp add: js_def)
  have w: "weighted_digit_sum (js ''4242424242424241'') = 79"
    by (simp add: weighted_digit_sum_def digits_of_def js_def is_digit_def digit_value_def
        double_digit_def)
  have "\<exists>r. validateCard (number_spec verdict) (js ''4242424242424241'') = Inr (Some r)
           \<and> status r = 400 \<and> card_error_kind r = Some ChecksumFailed"
    by (rule general [where type = "js ''visa''"]) (simp_all add: s d number_spec_def f b l w)
  with general show ?thesis by blast
qed

theorem checksum_failed_witness:
  "\<exists>r. validateCard (number_spec luhnCheck) (js ''4000 0000 0000 0001'') = Inr (Some r)
        \<and> status r = 400 \<and> card_error_kind r = Some ChecksumFailed"
proof -
  have s: "strip_whitespace (js ''4000 0000 0000 0001'') = js ''4000000000000001''"
    by (simp add: strip_whitespace_def js_def is_space_def)
  have d: "list_all is_digit (js ''4000000000000001'')"
    by (simp add: js_def is_digit_def)
  have f: "format_ok (js ''4000000000000001'')"
    by (simp add: format_ok_def js_def is_digit_def)
  have b: "brand (js ''4000000000000001'') = js ''visa''"
    by (simp add: brand_def prefix_between_def decimal_def js_def is_digit_def digit_value_def)
  have l: "length (js ''4000000000000001'') = 16" by (simp add: js_def)
  have w: "weighted_digit_sum (js ''4000000000000001'') = 9"
    by (simp add: weighted_digit_sum_def digits_of_def js_def is_digit_def digit_value_def
        double_digit_def)
  show ?thesis
    using checksum_failed [of "js ''4000 0000 0000 0001''" "number_spec luhnCheck" "js ''visa''"
        luhnCheck]
    by (simp add: s d number_spec_def f b l w)
qed

section \<open>Properties of the webhook route\<close>

lemma hex_digit_lowercase:
  "n < 16 \<Longrightarrow> hex_digit n \<in> set (js ''0123456789abcdef'')"
  unfolding hex_digit_def by (rule nth_mem) (simp add: js_def)

lemma hex_lowercase: "set (hex bs) \<subseteq> set (js ''0123456789abcdef'')"
proof -
  have "hex_digit (unat b div 16) \<in> set (js ''0123456789abcdef'')"
       "hex_digit (unat b mod 16) \<in> set (js ''0123456789abcdef'')" for b :: "8 word"
  proof -
    have "unat b < 256" using unsigned_less [of b, where ?'a = nat] by simp
    then have "unat b div 16 < 16" by simp
    then show "hex_digit (unat b div 16) \<in> set (js ''0123456789abcdef'')"
      by (rule hex_digit_lowercase)
    show "hex_digit (unat b mod 16) \<in> set (js ''0123456789abcdef'')"
      by (rule hex_digit_lowercase) simp
  qed
  then show ?thesis by (auto simp: hex_def)
qed

lemma length_hex: "length (hex bs) = 2 * length bs"
  by (induction bs) (simp_all add: hex_def)

text \<open>
  What the handler does when \<open>req.body\<close> is a \<open>Buffer\<close>, as the comment of line 218
  intends: the verification succeeds exactly on the lowercase hexadecimal HMAC, and a
  mismatch is answered with status 401.
\<close>

lemma verifySignature_on_buffer:
  "signature = Some s \<Longrightarrow> s \<noteq> [] \<Longrightarrow>
   (fst (verifySignature hmac signature (Some key) (Buffer data)) = Inr None
      \<longleftrightarrow> s = hex (hmac key data))
   \<and> (s \<noteq> hex (hmac key data) \<longrightarrow>
        fst (verifySignature hmac signature (Some key) (Buffer data)) =
          Inr (Some \<lparr>status = 401, content = Text (js ''Invalid signature'')\<rparr>))"
  by (auto simp: verifySignature_def Let_def)

text \<open>With a signature header but no secret in the environment, \<open>createHmac\<close> throws.\<close>

lemma verifySignature_unset_secret:
  "signature = Some s \<Longrightarrow> s \<noteq> [] \<Longrightarrow>
   fst (verifySignature hmac signature None body) = Inl TypeError"
  by (simp add: verifySignature_def)

text \<open>
  The two body parsers handle the same content type and the global one runs first, so
  the route's raw parser never reads a body: the handler is never given a \<open>Buffer\<close>.
\<close>

lemma handler_never_given_buffer:
  "bodyParser_json strict_parse rq \<lparr>req_body = Not_read, req_read = False\<rparr> = (Some r, effects)
   \<Longrightarrow> req_body (bodyParser_raw rq r) \<noteq> Buffer data"
  by (auto simp: bodyParser_json_def bodyParser_raw_def split: if_splits option.splits)

lemma verifySignature_not_buffer:
  "(\<And>d. body \<noteq> Buffer d) \<Longrightarrow>
   fst (verifySignature hmac signature webhookSecret body) \<noteq> Inr None"
  by (cases body) (auto simp: verifySignature_def split: option.splits)

lemma route_never_verifies:
  "bodyParser_json strict_parse rq \<lparr>req_body = Not_read, req_read = False\<rparr> = (Some r, effects)
   \<Longrightarrow> fst (verifySignature hmac signature webhookSecret (req_body (bodyParser_raw rq r)))
        \<noteq> Inr None"
  using handler_never_given_buffer [of strict_parse rq r effects]
  by (intro verifySignature_not_buffer) auto

lemma webhook_route_cases:
  "fst (webhook_route hmac strict_parse parse stringify webhookSecret rq) = Bad_request
   \<or> fst (webhook_route hmac strict_parse parse stringify webhookSecret rq) = Threw TypeError
   \<or> fst (webhook_route hmac strict_parse parse stringify webhookSecret rq)
       = Replied \<lparr>status = 400, content = Text (js ''Missing signature header'')\<rparr>"
  by (auto simp: webhook_route_def webhook_def verifySignature_def bodyParser_json_def
      bodyParser_raw_def split: option.splits parsed_body.splits)

lemma webhook_route_no_digest:
  "Create_hmac key data \<notin> set (snd (webhook_route hmac strict_parse parse stringify webhookSecret rq))"
  by (auto simp: webhook_route_def webhook_def verifySignature_def bodyParser_json_def
      bodyParser_raw_def split: option.splits parsed_body.splits)

text \<open>
  C2, on the route as written. A request that carries the lowercase hexadecimal
  HMAC-SHA256 of its payload under the secret is never acknowledged: \<open>bodyParser.json\<close>
  has replaced the raw bytes by the parsed value, and \<open>update\<close> throws on it. The request
  with the payload \<open>{}\<close> and the right signature ends in a \<open>TypeError\<close>.
\<close>

theorem signed_request_not_verified:
  "fst (webhook_route hmac strict_parse parse stringify (Some key)
          \<lparr>json_content = jc, payload = p, peach_signature = Some (hex (hmac key p))\<rparr>)
     \<noteq> Replied \<lparr>status = 200, content = Text (js ''Webhook received'')\<rparr>
   \<and> hex [0x0F, 0xA0] = js ''0fa0''
   \<and> webhook_route (\<lambda>k d. [0x0F, 0xA0]) (\<lambda>p. Some ()) (\<lambda>b. Some ()) (\<lambda>u. [])
        (Some (js ''secret''))
        \<lparr>json_content = True, payload = [0x7B, 0x7D], peach_signature = Some (js ''0fa0'')\<rparr>
       = (Threw TypeError, [Body_parser_parse [0x7B, 0x7D]])"
proof -
  have a: "fst (webhook_route hmac strict_parse parse stringify (Some key)
          \<lparr>json_content = jc, payload = p, peach_signature = Some (hex (hmac key p))\<rparr>)
     \<noteq> Replied \<lparr>status = 200, content = Text (js ''Webhook received'')\<rparr>"
    using webhook_route_cases [of hmac strict_parse parse stringify "Some key"
        "\<lparr>json_content = jc, payload = p, peach_signature = Some (hex (hmac key p))\<rparr>"]
    by auto
  have b: "hex [0x0F, 0xA0] = js ''0fa0''"
    by (simp add: hex_def hex_digit_def js_def)
  have c: "webhook_route (\<lambda>k d. [0x0F, 0xA0]) (\<lambda>p. Some ()) (\<lambda>b. Some ()) (\<lambda>u. [])
        (Some (js ''secret''))
        \<lparr>json_content = True, payload = [0x7B, 0x7D], peach_signature = Some (js ''0fa0'')\<rparr>
       = (Threw TypeError, [Body_parser_parse [0x7B, 0x7D]])"
    by (simp add: webhook_route_def webhook_def verifySignature_def bodyParser_json_def
        bodyParser_raw_def)
  from a b c show ?thesis by blast
qed

text \<open>
  C4, on the route as written. The payload of every \<open>application/json\<close> request is parsed
  by \<open>bodyParser.json\<close> whatever its signature, before the handler looks at the header,
  and no request is ever answered with \<open>Invalid JSON\<close>: a request without a signature
  has its payload parsed and is then answered with \<open>Missing signature header\<close>, and a
  payload that is not JSON is rejected by the body parser before any verification.
\<close>

theorem payload_parsed_before_verification:
  "Body_parser_parse p
     \<in> set (snd (webhook_route hmac strict_parse parse stringify webhookSecret
                   \<lparr>json_content = True, payload = p, peach_signature = signature\<rparr>))
   \<and> fst (webhook_route hmac strict_parse parse stringify webhookSecret rq)
       \<noteq> Replied \<lparr>status = 400, content = Text (js ''Invalid JSON'')\<rparr>
   \<and> webhook_route (\<lambda>k d. [0x0F, 0xA0]) (\<lambda>p. Some ()) (\<lambda>b. Some ()) (\<lambda>u. [])
        (Some (js ''secret''))
        \<lparr>json_content = True, payload = [0x7B, 0x7D], peach_signature = None\<rparr>
       = (Replied \<lparr>status = 400, content = Text (js ''Missing signature header'')\<rparr>,
          [Body_parser_parse [0x7B, 0x7D],
           Console_error (js ''Missing Peach-Signature header'')])
   \<and> webhook_route (\<lambda>k d. [0x0F, 0xA0]) (\<lambda>p. None :: unit option) (\<lambda>b. None) (\<lambda>u. [])
        (Some (js ''secret''))
        \<lparr>json_content = True, payload = [0x7B], peach_signature = Some (js ''0fa0'')\<rparr>
       = (Bad_request, [Body_parser_parse [0x7B]])"
proof -
  have a: "Body_parser_parse p
     \<in> set (snd (webhook_route hmac strict_parse parse stringify webhookSecret
                   \<lparr>json_content = True, payload = p, peach_signature = signature\<rparr>))"
    by (auto simp: webhook_route_def bodyParser_json_def split: option.splits prod.splits
        sum.splits)
  have b: "fst (webhook_route hmac strict_parse parse stringify webhookSecret rq)
       \<noteq> Replied \<lparr>status = 400, content = Text (js ''Invalid JSON'')\<rparr>"
    using webhook_route_cases [of hmac strict_parse parse stringify webhookSecret rq]
    by auto
  have c: "webhook_route (\<lambda>k d. [0x0F, 0xA0]) (\<lambda>p. Some ()) (\<lambda>b. Some ()) (\<lambda>u. [])
        (Some (js ''secret''))
        \<lparr>json_content = True, payload = [0x7B, 0x7D], peach_signature = None\<rparr>
       = (Replied \<lparr>status = 400, content = Text (js ''Missing signature header'')\<rparr>,
          [Body_parser_parse [0x7B, 0x7D],
           Console_error (js ''Missing Peach-Signature header'')])"
    by (simp add: webhook_route_def webhook_def verifySignature_def bodyParser_json_def
        bodyParser_raw_def)
  have d: "webhook_route (\<lambda>k d. [0x0F, 0xA0]) (\<lambda>p. None :: unit option) (\<lambda>b. None) (\<lambda>u. [])
        (Some (js ''secret''))
        \<lparr>json_content = True, payload = [0x7B], peach_signature = Some (js ''0fa0'')\<rparr>
       = (Bad_request, [Body_parser_parse [0x7B]])"
    by (simp add: webhook_route_def bodyParser_json_def)
  from a b c d show ?thesis by blast
qed

text \<open>
  C5. For every payload and secret, if the received signature is absent or the empty
  string, the verification answers with status 400, \<open>MissingSignature\<close>, and its only
  effect is the console message: no HMAC is computed, in the verification, anywhere
  in the handler, or anywhere on the route.
\<close>

theorem verifySignature_missing:
  "signature = None \<or> signature = Some [] \<Longrightarrow>
   verifySignature hmac signature webhookSecret body =
     (Inr (Some \<lparr>status = 400, content = Text (js ''Missing signature header'')\<rparr>),
      [Console_error (js ''Missing Peach-Signature header'')])
   \<and> webhook_error_kind \<lparr>status = 400, content = Text (js ''Missing signature header'')\<rparr>
       = Some MissingSignature
   \<and> Create_hmac key data \<notin> set (snd (verifySignature hmac signature webhookSecret body))
   \<and> Create_hmac key data \<notin> set (snd (webhook hmac parse stringify signature webhookSecret body))
   \<and> Create_hmac key data
       \<notin> set (snd (webhook_route hmac strict_parse parse stringify webhookSecret
                     \<lparr>json_content = jc, payload = p, peach_signature = signature\<rparr>))"
  using webhook_route_no_digest [of key data hmac strict_parse parse stringify webhookSecret
      "\<lparr>json_content = jc, payload = p, peach_signature = signature\<rparr>"]
  by (auto simp: verifySignature_def webhook_def webhook_error_kind_def)

theorem verifySignature_missing_witness:
  "verifySignature (\<lambda>k d. []) (Some []) (Some (js ''secret'')) (Buffer [0x7B, 0x7D]) =
     (Inr (Some \<lparr>status = 400, content = Text (js ''Missing signature header'')\<rparr>),
      [Console_error (js ''Missing Peach-Signature header'') :: unit effect])
   \<and> verifySignature (\<lambda>k d. []) None None (Parsed ()) =
     (Inr (Some \<lparr>status = 400, content = Text (js ''Missing signature header'')\<rparr>),
      [Console_error (js ''Missing Peach-Signature header'')])"
  using verifySignature_missing [where signature = "Some []" and hmac = "\<lambda>k d. []"
      and webhookSecret = "Some (js ''secret'')" and body = "Buffer [0x7B, 0x7D] :: unit parsed_body"
      and key = "[]" and data = "[]" and parse = "\<lambda>b. None" and stringify = "\<lambda>u. []"
      and strict_parse = "\<lambda>b. None" and jc = True and p = "[]"]
    verifySignature_missing [where signature = None and hmac = "\<lambda>k d. []"
      and webhookSecret = None and body = "Parsed ()"
      and key = "[]" and data = "[]" and parse = "\<lambda>b. None" and stringify = "\<lambda>u. []"
      and strict_parse = "\<lambda>b. None" and jc = True and p = "[]"]
  by simp

section \<open>Exceptions of the two routines\<close>

text \<open>
  The card validation returns every failure as a value: when the package never reports
  a number valid without naming its card, it throws for no string and each of its
  answers is one of \<open>InvalidFormat\<close>, \<open>InvalidLength\<close> and \<open>ChecksumFailed\<close>.
\<close>

lemma validateCard_total:
  "(\<And>s. isValid (valid_number s) \<Longrightarrow> card (valid_number s) \<noteq> None) \<Longrightarrow>
   (\<exists>res. validateCard valid_number number = Inr res)
   \<and> (\<forall>r. validateCard valid_number number = Inr (Some r) \<longrightarrow>
         card_error_kind r \<in> {Some InvalidFormat, Some InvalidLength, Some ChecksumFailed})"
proof -
  assume "\<And>s. isValid (valid_number s) \<Longrightarrow> card (valid_number s) \<noteq> None"
  from this [of "strip_whitespace number"] show ?thesis
    by (auto simp: validateCard_def card_checks_def card_error_kind_def Let_def
        split: option.splits)
qed

text \<open>
  C9, on the route as written. The signature verification does raise: with a signature
  header present it throws a \<open>TypeError\<close> whenever the secret is not set, and whenever
  \<open>req.body\<close> is the parsed value or was not read, whatever the secret; no request with a
  signature gets past the body parsers to anything else. A signed request with another
  content type ends in a \<open>TypeError\<close>, not in one of the named error kinds.
\<close>

theorem verifySignature_throws:
  "fst (verifySignature hmac (Some (c # s)) None body) = Inl TypeError
   \<and> fst (verifySignature hmac (Some (c # s)) webhookSecret (Parsed v)) = Inl TypeError
   \<and> fst (verifySignature hmac (Some (c # s)) webhookSecret Not_read) = Inl TypeError
   \<and> fst (webhook_route hmac strict_parse parse stringify webhookSecret
            \<lparr>json_content = False, payload = p, peach_signature = Some (c # s)\<rparr>)
       = Threw TypeError
   \<and> webhook_route (\<lambda>k d. [0x0F]) (\<lambda>p. Some ()) (\<lambda>b. Some ()) (\<lambda>u. [])
        (Some (js ''secret''))
        \<lparr>json_content = False, payload = [0x61], peach_signature = Some (js ''zz'')\<rparr>
       = (Threw TypeError, [])"
  by (auto simp: verifySignature_def webhook_def webhook_route_def bodyParser_json_def
      bodyParser_raw_def js_def split: option.splits)

end
